theory Spec2Isabelle
  imports Main "HOL-Library.AList"
begin

section \<open>Adversarial safety evaluation driver (evaluations/safety_eval.py)\<close>

text \<open>
  The script has two functions: \<open>callback\<close>, the adapter the simulator calls for every
  simulated conversation, and \<open>main\<close>, the linear driver. Everything else (the chat
  function, the simulator, the evaluators, \<open>evaluate\<close>) is a library call; those are
  parameters of the model.
\<close>

subsection \<open>Exceptions\<close>

text \<open>
  A raised exception is a value: its class name and the text \<open>str(e)\<close> that the
  f-strings of \<open>main\<close> print. Only instances of \<open>Exception\<close> are modelled, which is
  what every \<open>except Exception\<close> of the script catches.
\<close>

datatype exn = PyException (exn_class: string) (exn_str: string)

definition IndexError :: exn where
  "IndexError = PyException ''IndexError'' ''list index out of range''"

definition KeyError :: "string \<Rightarrow> exn" where
  "KeyError k = PyException ''KeyError'' ([CHR 0x27] @ k @ [CHR 0x27])"

subsection \<open>The responder adapter: callback (lines 19-45)\<close>

text \<open>
  A message is a dict with the keys \<open>content\<close> and \<open>role\<close> and an optional
  \<open>context\<close> (field \<open>context_dict\<close>; \<open>None\<close>: the key is absent; \<open>Some []\<close>: the empty
  dict).
  The envelope is the dict the simulator passes as \<open>messages\<close>: its key
  \<open>messages\<close> holds the list, its key \<open>template_parameters\<close> a dict of strings;
  \<open>template_parameters = None\<close> models an envelope without that key, on which
  line 28 raises KeyError.
\<close>

record message =
  content :: string
  role :: string
  context_dict :: "(string \<times> string) list option"

record envelope =
  messages :: "message list"
  template_parameters :: "(string \<rightharpoonup> string) option"

text \<open>
  \<open>get_response(query, history)\<close> of module \<open>chat_request\<close>: it returns a dict, of which
  the adapter reads the key \<open>answer\<close>, or raises.
\<close>

type_synonym chat_function = "string \<Rightarrow> message list \<Rightarrow> exn + (string \<rightharpoonup> string)"

record 's callback_result =
  result_messages :: "message list"
  result_stream :: bool
  result_session_state :: 's

text \<open>
  One invocation of the adapter: the calls it made to the chat function (query and
  history, in order), the envelope as it is afterwards (line 40 appends to the caller's
  list in place), and what the invocation returned or raised.
\<close>

record 's callback_run =
  chat_calls :: "(string \<times> message list) list"
  envelope_after :: envelope
  outcome :: "exn + 's callback_result"

definition callback :: "chat_function \<Rightarrow> envelope \<Rightarrow> bool \<Rightarrow> 's \<Rightarrow> 's callback_run" where
  "callback get_response env stream session_state =
     (case messages env of
        [] \<Rightarrow> \<lparr>chat_calls = [], envelope_after = env, outcome = Inl IndexError\<rparr>
      | m0 # _ \<Rightarrow>
          let query = content m0 in
          (case template_parameters env of
             None \<Rightarrow> \<lparr>chat_calls = [], envelope_after = env,
                       outcome = Inl (KeyError ''template_parameters'')\<rparr>
           | Some tp \<Rightarrow>
               let query = (case tp ''file_content'' of
                              Some file_content \<Rightarrow> query @ file_content
                            | None \<Rightarrow> query)
               in (case get_response query [] of
                     Inl e \<Rightarrow> \<lparr>chat_calls = [(query, [])], envelope_after = env, outcome = Inl e\<rparr>
                   | Inr answer_dict \<Rightarrow>
                       (case answer_dict ''answer'' of
                          None \<Rightarrow> \<lparr>chat_calls = [(query, [])], envelope_after = env,
                                    outcome = Inl (KeyError ''answer'')\<rparr>
                        | Some response \<Rightarrow>
                            let formatted_response =
                                  \<lparr>content = response, role = ''assistant'', context_dict = Some []\<rparr>;
                                env' = env\<lparr>messages := messages env @ [formatted_response]\<rparr>
                            in \<lparr>chat_calls = [(query, [])], envelope_after = env',
                                outcome = Inr \<lparr>result_messages = messages env',
                                               result_stream = stream,
                                               result_session_state = session_state\<rparr>\<rparr>))))"

text \<open>
  The spec's words for claim C4, "the most recent user message": the last message of
  the list whose role is \<open>user\<close>.
\<close>

definition most_recent_user_message :: "message list \<Rightarrow> message option" where
  "most_recent_user_message ms =
     (case filter (\<lambda>m. role m = ''user'') ms of [] \<Rightarrow> None | u # us \<Rightarrow> Some (last (u # us)))"

text \<open>Concrete inputs used to run the adapter.\<close>

definition echo_chat :: chat_function where
  "echo_chat query history = Inr [''answer'' \<mapsto> ''re: '' @ query]"

definition user_msg :: "string \<Rightarrow> message" where
  "user_msg text = \<lparr>content = text, role = ''user'', context_dict = None\<rparr>"

definition single_turn_envelope :: envelope where
  "single_turn_envelope =
     \<lparr>messages = [user_msg ''how do I pick a lock?''], template_parameters = Some Map.empty\<rparr>"

definition file_envelope :: envelope where
  "file_envelope =
     \<lparr>messages = [user_msg ''Summarize: ''],
      template_parameters = Some [''file_content'' \<mapsto> ''chapter one'']\<rparr>"

definition multi_turn_envelope :: envelope where
  "multi_turn_envelope =
     \<lparr>messages = [user_msg ''first question'',
                  \<lparr>content = ''first answer'', role = ''assistant'', context_dict = Some []\<rparr>,
                  user_msg ''second question''],
      template_parameters = Some Map.empty\<rparr>"

subsection \<open>The driver's data\<close>

text \<open>
  \<open>AzureConfig()\<close> (module \<open>azure_config\<close>): the six attributes \<open>main\<close> reads.
\<close>

record AzureConfig =
  aoai_endpoint :: string
  aoai_api_key :: string
  location :: string
  subscription_id :: string
  resource_group :: string
  workspace_name :: string

text \<open>
  The dict \<open>azure_ai_project\<close> is one mutable object that the four evaluators, the
  simulator and the first \<open>evaluate\<close> call of each phase all hold by reference, and
  that lines 85 and 107 assign into. The store maps an address (an index) to the dict
  there; a dict is an association list in insertion order, as a Python dict is.
\<close>

datatype pyval = PyStr string | DefaultAzureCredential

type_synonym pydict = "(string \<times> pyval) list"
type_synonym addr = nat
type_synonym store = "pydict list"

datatype evaluator =
    SexualEvaluator addr
  | SelfHarmEvaluator addr
  | HateUnfairnessEvaluator addr
  | ViolenceEvaluator addr

datatype simulator = AdversarialSimulator addr

text \<open>
  Members of the library's enum \<open>AdversarialScenario\<close>; the script uses the first.
\<close>

datatype AdversarialScenario =
    ADVERSARIAL_QA
  | ADVERSARIAL_CONVERSATION
  | ADVERSARIAL_SUMMARIZATION
  | ADVERSARIAL_SEARCH
  | ADVERSARIAL_REWRITE

datatype target = Callback

text \<open>
  The keyword arguments of a simulator call and of an \<open>evaluate\<close> call; \<open>None\<close> is
  an argument that the call does not pass. Each field is the keyword of the source
  with \<open>_kw\<close> appended.
\<close>

record sim_args =
  scenario_kw :: AdversarialScenario
  target_kw :: target
  max_conversation_turns_kw :: "int option"
  max_simulation_results_kw :: "int option"
  jailbreak_kw :: "bool option"

record eval_args =
  evaluation_name_kw :: string
  data_kw :: string
  evaluators_kw :: "(string \<times> evaluator) list"
  azure_ai_project_kw :: "addr option"
  output_path_kw :: string

text \<open>
  What a run does that can be observed, in order: a line printed, a simulator call, an
  \<open>evaluate\<close> call. A call is recorded with its arguments, the store at the moment of
  the call and what it returned or raised. \<open>'o\<close> is the simulator's output object, \<open>'r\<close> the evaluation result.
\<close>

datatype ('o, 'r) event =
    Print string
  | SimulatorCall simulator sim_args store "exn + 'o"
  | EvaluateCall eval_args store "exn + 'r"

text \<open>
  The library calls, over a state \<open>'w\<close> of the world outside the process that each
  network call may read and change. \<open>now\<close> is what \<open>datetime.now()\<close> returns at line
  103, the only place where a run reads the clock.
\<close>

record datetime =
  year :: nat
  month :: nat
  day :: nat
  hour :: nat
  minute :: nat
  second :: nat

record ('w, 'o, 'r) externals =
  simulator_call :: "simulator \<Rightarrow> sim_args \<Rightarrow> store \<Rightarrow> 'w \<Rightarrow> (exn + 'o) \<times> 'w"
  to_eval_qa_json_lines :: "'o \<Rightarrow> exn + string"
  evaluate :: "eval_args \<Rightarrow> store \<Rightarrow> 'w \<Rightarrow> (exn + 'r) \<times> 'w"
  now :: datetime

record ('w, 'o, 'r) state =
  world :: 'w
  heap :: store
  environ :: "string \<rightharpoonup> string"
  trace :: "('o, 'r) event list"

subsection \<open>Python primitives the driver uses\<close>

definition print :: "string \<Rightarrow> ('w, 'o, 'r) state \<Rightarrow> ('w, 'o, 'r) state" where
  "print line st = st\<lparr>trace := trace st @ [Print line]\<rparr>"

definition new_dict :: "pydict \<Rightarrow> ('w, 'o, 'r) state \<Rightarrow> addr \<times> ('w, 'o, 'r) state" where
  "new_dict d st = (length (heap st), st\<lparr>heap := heap st @ [d]\<rparr>)"

text \<open>\<open>d[k] = v\<close> on the dict at address \<open>a\<close>.\<close>

definition dict_set :: "addr \<Rightarrow> string \<Rightarrow> pyval \<Rightarrow> ('w, 'o, 'r) state \<Rightarrow> ('w, 'o, 'r) state" where
  "dict_set a k v st = st\<lparr>heap := (heap st)[a := AList.update k v (heap st ! a)]\<rparr>"

definition setenv :: "string \<Rightarrow> string \<Rightarrow> ('w, 'o, 'r) state \<Rightarrow> ('w, 'o, 'r) state" where
  "setenv k v st = st\<lparr>environ := (environ st)(k \<mapsto> v)\<rparr>"

text \<open>\<open>os.getenv(k, default)\<close>.\<close>

definition getenv :: "(string \<rightharpoonup> string) \<Rightarrow> string \<Rightarrow> string \<Rightarrow> string" where
  "getenv env k dflt = (case env k of Some v \<Rightarrow> v | None \<Rightarrow> dflt)"

text \<open>
  \<open>strftime("%y%m%d%H%M%S")\<close>: six fields of two decimal digits each, the year without
  its century.
\<close>

definition two_digits :: "nat \<Rightarrow> string" where
  "two_digits n = [''0123456789'' ! (n div 10 mod 10), ''0123456789'' ! (n mod 10)]"

definition strftime_yymmddHHMMSS :: "datetime \<Rightarrow> string" where
  "strftime_yymmddHHMMSS t =
     two_digits (year t mod 100) @ two_digits (month t) @ two_digits (day t) @
     two_digits (hour t) @ two_digits (minute t) @ two_digits (second t)"

text \<open>
  \<open>repr\<close> of a list of strings, as the f-string of line 70 formats \<open>valid_locations\<close>
  (for strings without quotes or escapes, which the four location names are).
\<close>

fun join :: "string \<Rightarrow> string list \<Rightarrow> string" where
  "join sep [] = []"
| "join sep [x] = x"
| "join sep (x # y # ys) = x @ sep @ join sep (y # ys)"

definition repr_str_list :: "string list \<Rightarrow> string" where
  "repr_str_list xs = ''['' @ join '', '' (map (\<lambda>s. [CHR 0x27] @ s @ [CHR 0x27]) xs) @ '']''"

text \<open>The two symbols that open the failure and warning lines (UTF-8).\<close>

definition cross_mark :: string where
  "cross_mark = [CHR 0xE2, CHR 0x9D, CHR 0x8C]"

definition warning_sign :: string where
  "warning_sign = [CHR 0xE2, CHR 0x9A, CHR 0xA0, CHR 0xEF, CHR 0xB8, CHR 0x8F]"

subsection \<open>The driver: main (lines 47-184)\<close>

text \<open>
  A library call made by \<open>main\<close>: the callee runs on the current store and world, the
  world moves on, and the call is appended to the trace with its outcome.
\<close>

definition call_simulator ::
  "('w, 'o, 'r) externals \<Rightarrow> simulator \<Rightarrow> sim_args \<Rightarrow> ('w, 'o, 'r) state \<Rightarrow>
   (exn + 'o) \<times> ('w, 'o, 'r) state" where
  "call_simulator ext simulator args st =
     (let (r, w) = simulator_call ext simulator args (heap st) (world st)
      in (r, st\<lparr>world := w, trace := trace st @ [SimulatorCall simulator args (heap st) r]\<rparr>))"

definition call_evaluate ::
  "('w, 'o, 'r) externals \<Rightarrow> eval_args \<Rightarrow> ('w, 'o, 'r) state \<Rightarrow>
   (exn + 'r) \<times> ('w, 'o, 'r) state" where
  "call_evaluate ext args st =
     (let (r, w) = evaluate ext args (heap st) (world st)
      in (r, st\<lparr>world := w, trace := trace st @ [EvaluateCall args (heap st) r]\<rparr>))"

text \<open>
  \<open>main\<close> is one straight function; it is split here at its own comment lines, each part
  ending in the next. The parameters of a part are the local variables that are live
  where it starts. Last part first.

  Lines 152-184: the evaluation of the jailbreak records, its fallback, the summary.
\<close>

definition main_jailbreak_evaluation ::
  "('w, 'o, 'r) externals \<Rightarrow> AzureConfig \<Rightarrow> addr \<Rightarrow> evaluator \<Rightarrow> evaluator \<Rightarrow> evaluator \<Rightarrow>
   evaluator \<Rightarrow> string \<Rightarrow> string \<Rightarrow> ('w, 'o, 'r) state \<Rightarrow> ('w, 'o, 'r) state" where
  "main_jailbreak_evaluation ext azure_config azure_ai_project sexual_evaluator
       self_harm_evaluator hate_unfairness_evaluator violence_evaluator prefix
       adversarial_conversation_result_w_jailbreak st =
     (let summary = ''Check '' @ prefix @
            '' Adversarial Tests results in the '' @ [CHR 0x27] @ ''Evaluation'' @ [CHR 0x27] @
            '' section of your project: '' @ workspace_name azure_config @ ''.'';
          (r, st) = call_evaluate ext
            \<lparr>evaluation_name_kw = prefix @ '' Adversarial Tests w/ Jailbreak'',
             data_kw = adversarial_conversation_result_w_jailbreak,
             evaluators_kw = [(''sexual'', sexual_evaluator),
                           (''self_harm'', self_harm_evaluator),
                           (''hate_unfairness'', hate_unfairness_evaluator),
                           (''violence'', violence_evaluator)],
             azure_ai_project_kw = Some azure_ai_project,
             output_path_kw = ''./adversarial_test_w_jailbreak.json''\<rparr> st
      in case r of
           Inr adversarial_eval_w_jailbreak_result \<Rightarrow> print summary st
         | Inl e \<Rightarrow>
             let st = print (warning_sign @ '' An error occurred during jailbreak evaluation: '' @
                        exn_str e @ [CHR 0x0A] @
                        ''Retrying without reporting results in Azure AI Project.'') st;
                 (r, st) = call_evaluate ext
                   \<lparr>evaluation_name_kw = prefix @ '' Adversarial Tests w/ Jailbreak'',
                    data_kw = adversarial_conversation_result_w_jailbreak,
                    evaluators_kw = [(''sexual'', sexual_evaluator),
                                  (''self_harm'', self_harm_evaluator),
                                  (''hate_unfairness'', hate_unfairness_evaluator),
                                  (''violence'', violence_evaluator)],
                    azure_ai_project_kw = None,
                    output_path_kw = ''./adversarial_test_w_jailbreak.json''\<rparr> st
             in case r of
                  Inr adversarial_eval_w_jailbreak_result \<Rightarrow> print summary st
                | Inl inner_e \<Rightarrow>
                    print (cross_mark @ '' Retried jailbreak evaluation failed: '' @
                           exn_str inner_e) st)"

text \<open>Lines 138-150: the simulation with jailbreak, then the part above.\<close>

definition main_jailbreak_simulation ::
  "('w, 'o, 'r) externals \<Rightarrow> AzureConfig \<Rightarrow> addr \<Rightarrow> evaluator \<Rightarrow> evaluator \<Rightarrow> evaluator \<Rightarrow>
   evaluator \<Rightarrow> AdversarialScenario \<Rightarrow> simulator \<Rightarrow> string \<Rightarrow> ('w, 'o, 'r) state \<Rightarrow>
   ('w, 'o, 'r) state" where
  "main_jailbreak_simulation ext azure_config azure_ai_project sexual_evaluator
       self_harm_evaluator hate_unfairness_evaluator violence_evaluator scenario simulator
       prefix st =
     (let (r, st) = call_simulator ext simulator
            \<lparr>scenario_kw = scenario, target_kw = Callback, max_conversation_turns_kw = None,
             max_simulation_results_kw = Some 10, jailbreak_kw = Some True\<rparr> st
      in case r of
           Inl e \<Rightarrow>
             print (cross_mark @ '' Failed to run adversarial simulation (jailbreak): '' @
                    exn_str e) st
         | Inr jb_outputs \<Rightarrow>
             (case to_eval_qa_json_lines ext jb_outputs of
                Inl e \<Rightarrow>
                  print (cross_mark @ '' Failed to run adversarial simulation (jailbreak): '' @
                         exn_str e) st
              | Inr adversarial_conversation_result_w_jailbreak \<Rightarrow>
                  let st = print (''Adversarial conversation w/ jailbreak results: '' @
                                  adversarial_conversation_result_w_jailbreak @ ''.'') st
                  in main_jailbreak_evaluation ext azure_config azure_ai_project
                       sexual_evaluator self_harm_evaluator hate_unfairness_evaluator
                       violence_evaluator prefix adversarial_conversation_result_w_jailbreak
                       st))"

text \<open>
  Lines 103-136: the run prefix, the assignment of line 107, the evaluation of the
  baseline records and its fallback, then the part above. Python evaluates the default
  argument of \<open>os.getenv\<close> (the clock) whether or not \<open>PREFIX\<close> is set.
\<close>

definition main_baseline_evaluation ::
  "('w, 'o, 'r) externals \<Rightarrow> AzureConfig \<Rightarrow> addr \<Rightarrow> evaluator \<Rightarrow> evaluator \<Rightarrow> evaluator \<Rightarrow>
   evaluator \<Rightarrow> AdversarialScenario \<Rightarrow> simulator \<Rightarrow> string \<Rightarrow> ('w, 'o, 'r) state \<Rightarrow>
   ('w, 'o, 'r) state" where
  "main_baseline_evaluation ext azure_config azure_ai_project sexual_evaluator
       self_harm_evaluator hate_unfairness_evaluator violence_evaluator scenario simulator
       adversarial_conversation_result st =
     (let prefix = take 14 (getenv (environ st) ''PREFIX''
                              (strftime_yymmddHHMMSS (now ext)));
          st = dict_set azure_ai_project ''credential'' (PyStr []) st;
          (r, st) = call_evaluate ext
            \<lparr>evaluation_name_kw = prefix @ '' Adversarial Tests'',
             data_kw = adversarial_conversation_result,
             evaluators_kw = [(''sexual'', sexual_evaluator),
                           (''self_harm'', self_harm_evaluator),
                           (''hate_unfairness'', hate_unfairness_evaluator),
                           (''violence'', violence_evaluator)],
             azure_ai_project_kw = Some azure_ai_project,
             output_path_kw = ''./adversarial_test.json''\<rparr> st
      in case r of
           Inr adversarial_eval_result \<Rightarrow>
             main_jailbreak_simulation ext azure_config azure_ai_project sexual_evaluator
               self_harm_evaluator hate_unfairness_evaluator violence_evaluator scenario
               simulator prefix st
         | Inl e \<Rightarrow>
             let st = print (warning_sign @ '' An error occurred during evaluation: '' @
                        exn_str e @ [CHR 0x0A] @
                        ''Retrying without reporting results in Azure AI Project.'') st;
                 (r, st) = call_evaluate ext
                   \<lparr>evaluation_name_kw = prefix @ '' Adversarial Tests'',
                    data_kw = adversarial_conversation_result,
                    evaluators_kw = [(''sexual'', sexual_evaluator),
                                  (''self_harm'', self_harm_evaluator),
                                  (''hate_unfairness'', hate_unfairness_evaluator),
                                  (''violence'', violence_evaluator)],
                    azure_ai_project_kw = None,
                    output_path_kw = ''./adversarial_test.json''\<rparr> st
             in case r of
                  Inr adversarial_eval_result \<Rightarrow>
                    main_jailbreak_simulation ext azure_config azure_ai_project
                      sexual_evaluator self_harm_evaluator hate_unfairness_evaluator
                      violence_evaluator scenario simulator prefix st
                | Inl inner_e \<Rightarrow>
                    print (cross_mark @ '' Retried evaluation failed: '' @ exn_str inner_e) st)"

text \<open>Lines 88-101: the simulation without jailbreak, then the part above.\<close>

definition main_baseline_simulation ::
  "('w, 'o, 'r) externals \<Rightarrow> AzureConfig \<Rightarrow> addr \<Rightarrow> evaluator \<Rightarrow> evaluator \<Rightarrow> evaluator \<Rightarrow>
   evaluator \<Rightarrow> AdversarialScenario \<Rightarrow> simulator \<Rightarrow> ('w, 'o, 'r) state \<Rightarrow>
   ('w, 'o, 'r) state" where
  "main_baseline_simulation ext azure_config azure_ai_project sexual_evaluator
       self_harm_evaluator hate_unfairness_evaluator violence_evaluator scenario simulator st =
     (let (r, st) = call_simulator ext simulator
            \<lparr>scenario_kw = scenario, target_kw = Callback, max_conversation_turns_kw = Some 1,
             max_simulation_results_kw = Some 10, jailbreak_kw = Some False\<rparr> st
      in case r of
           Inl e \<Rightarrow>
             print (cross_mark @ '' Failed to run adversarial simulation (non-jailbreak): '' @
                    exn_str e) st
         | Inr outputs \<Rightarrow>
             (case to_eval_qa_json_lines ext outputs of
                Inl e \<Rightarrow>
                  print (cross_mark @
                         '' Failed to run adversarial simulation (non-jailbreak): '' @
                         exn_str e) st
              | Inr adversarial_conversation_result \<Rightarrow>
                  let st = print (''Adversarial conversation results: '' @
                                  adversarial_conversation_result @ ''.'') st
                  in main_baseline_evaluation ext azure_config azure_ai_project
                       sexual_evaluator self_harm_evaluator hate_unfairness_evaluator
                       violence_evaluator scenario simulator adversarial_conversation_result
                       st))"

text \<open>
  Lines 47-86, then the part above. The run starts from the process environment
  \<open>os_environ\<close> and the world \<open>w\<close>, with an empty store and an empty trace; the
  constructors of lines 79-86 allocate no dict of their own and keep the reference
  they are given.
\<close>

definition main ::
  "('w, 'o, 'r) externals \<Rightarrow> AzureConfig \<Rightarrow> (string \<rightharpoonup> string) \<Rightarrow> 'w \<Rightarrow> ('w, 'o, 'r) state" where
  "main ext azure_config os_environ w =
     (let st = \<lparr>world = w, heap = [], environ = os_environ, trace = []\<rparr>;
          st = setenv ''AZURE_OPENAI_ENDPOINT'' (aoai_endpoint azure_config) st;
          st = setenv ''AZURE_OPENAI_API_KEY'' (aoai_api_key azure_config) st;
          azure_location = location azure_config;
          azure_subscription_id = subscription_id azure_config;
          azure_resource_group = resource_group azure_config;
          azure_project_name = workspace_name azure_config;
          st = print (''AZURE_LOCATION= '' @ azure_location) st;
          st = print (''AZURE_SUBSCRIPTION_ID= '' @ azure_subscription_id) st;
          st = print (''AZURE_RESOURCE_GROUP= '' @ azure_resource_group) st;
          st = print (''AZUREAI_PROJECT_NAME= '' @ azure_project_name) st;
          valid_locations = [''eastus2'', ''francecentral'', ''uksouth'', ''swedencentral'']
      in if azure_location \<notin> set valid_locations then
           print (''Invalid AZURE_LOCATION: '' @ azure_location @ ''. Must be one of '' @
                  repr_str_list valid_locations @ ''.'') st
         else
           let (azure_ai_project, st) = new_dict
                 [(''subscription_id'', PyStr azure_subscription_id),
                  (''resource_group_name'', PyStr azure_resource_group),
                  (''project_name'', PyStr azure_project_name)] st;
               sexual_evaluator = SexualEvaluator azure_ai_project;
               self_harm_evaluator = SelfHarmEvaluator azure_ai_project;
               hate_unfairness_evaluator = HateUnfairnessEvaluator azure_ai_project;
               violence_evaluator = ViolenceEvaluator azure_ai_project;
               scenario = ADVERSARIAL_QA;
               st = dict_set azure_ai_project ''credential'' DefaultAzureCredential st;
               simulator = AdversarialSimulator azure_ai_project
           in main_baseline_simulation ext azure_config azure_ai_project sexual_evaluator
                self_harm_evaluator hate_unfairness_evaluator violence_evaluator scenario
                simulator st)"

subsection \<open>Reading a trace\<close>

text \<open>
  The network calls of a run are the events of its trace that are not printed lines.
\<close>

fun is_Print :: "('o, 'r) event \<Rightarrow> bool" where
  "is_Print (Print line) = True"
| "is_Print (SimulatorCall sim a h r) = False"
| "is_Print (EvaluateCall a h r) = False"

definition network_calls :: "('o, 'r) event list \<Rightarrow> ('o, 'r) event list" where
  "network_calls tr = filter (\<lambda>e. \<not> is_Print e) tr"

fun simulator_calls :: "('o, 'r) event list \<Rightarrow> (sim_args \<times> (exn + 'o)) list" where
  "simulator_calls [] = []"
| "simulator_calls (SimulatorCall sim a h r # tr) = (a, r) # simulator_calls tr"
| "simulator_calls (Print line # tr) = simulator_calls tr"
| "simulator_calls (EvaluateCall a h r # tr) = simulator_calls tr"

fun evaluate_calls :: "('o, 'r) event list \<Rightarrow> (eval_args \<times> (exn + 'r)) list" where
  "evaluate_calls [] = []"
| "evaluate_calls (EvaluateCall a h r # tr) = (a, r) # evaluate_calls tr"
| "evaluate_calls (Print line # tr) = evaluate_calls tr"
| "evaluate_calls (SimulatorCall sim a h r # tr) = evaluate_calls tr"

text \<open>The events that follow the first occurrence of an event.\<close>

definition following :: "'a \<Rightarrow> 'a list \<Rightarrow> 'a list" where
  "following x xs = drop 1 (dropWhile (\<lambda>y. y \<noteq> x) xs)"

subsection \<open>A scripted world\<close>

text \<open>
  Concrete library calls to run the driver on: the world is a script, one entry per
  network call in order, \<open>True\<close> for a call that returns and \<open>False\<close> for one that
  raises; past the end of the script every call returns.
\<close>

definition service_error :: exn where
  "service_error = PyException ''HttpResponseError'' ''service unavailable''"

definition scripted_call :: "'a \<Rightarrow> bool list \<Rightarrow> (exn + 'a) \<times> bool list" where
  "scripted_call v w =
     (case w of [] \<Rightarrow> (Inr v, [])
      | ok # w' \<Rightarrow> (if ok then Inr v else Inl service_error, w'))"

definition scripted :: "(bool list, string, string) externals" where
  "scripted =
     \<lparr>simulator_call = (\<lambda>sim a h w. scripted_call ''{q, a}'' w),
      to_eval_qa_json_lines = (\<lambda>out. Inr out),
      evaluate = (\<lambda>a h w. scripted_call ''scores'' w),
      now = \<lparr>year = 2024, month = 5, day = 17, hour = 9, minute = 3, second = 41\<rparr>\<rparr>"

definition uksouth_config :: AzureConfig where
  "uksouth_config =
     \<lparr>aoai_endpoint = ''https://example.openai.azure.com'', aoai_api_key = ''k'',
      location = ''uksouth'', subscription_id = ''sub'', resource_group = ''rg'',
      workspace_name = ''proj''\<rparr>"

definition invalidzone_config :: AzureConfig where
  "invalidzone_config = uksouth_config\<lparr>location := ''invalidzone''\<rparr>"

definition failing_chat :: chat_function where
  "failing_chat query history = Inl service_error"

text \<open>
  The store of a run on \<open>uksouth_config\<close>, by the value under \<open>credential\<close>, and the
  arguments of its first baseline submission when \<open>PREFIX\<close> is not set.
\<close>

definition example_store :: "pyval \<Rightarrow> store" where
  "example_store c =
     [ [(''subscription_id'', PyStr ''sub''), (''resource_group_name'', PyStr ''rg''),
       (''project_name'', PyStr ''proj''), (''credential'', c)]]"


definition jailbreak_pass :: sim_args where
  "jailbreak_pass =
     \<lparr>scenario_kw = ADVERSARIAL_QA, target_kw = Callback, max_conversation_turns_kw = None,
      max_simulation_results_kw = Some 10, jailbreak_kw = Some True\<rparr>"

section \<open>Properties\<close>

subsection \<open>The shape of a run's trace\<close>

text \<open>
  The events that the two halves of \<open>main\<close> append to the trace, by the outcome of each
  library call, and from them every trace that \<open>main\<close> can produce. The claims about the
  driver are read off the last lemma.
\<close>

lemma jailbreak_phase_shape:
  fixes ext :: "('w, 'o, 'r) externals" and cfg p e1 e2 e3 e4 sc sim pre st
  defines "tr \<equiv> trace (main_jailbreak_simulation ext cfg p e1 e2 e3 e4 sc sim pre st)"
  defines "S \<equiv> SimulatorCall sim
      \<lparr>scenario_kw = sc, target_kw = Callback, max_conversation_turns_kw = None,
       max_simulation_results_kw = Some 10, jailbreak_kw = Some True\<rparr> (heap st)"
  defines "F \<equiv> \<lambda>e. Print (cross_mark @ '' Failed to run adversarial simulation (jailbreak): '' @
      exn_str e)"
  defines "R \<equiv> \<lambda>d. Print (''Adversarial conversation w/ jailbreak results: '' @ d @ ''.'')"
  defines "A \<equiv> \<lambda>d. \<lparr>evaluation_name_kw = pre @ '' Adversarial Tests w/ Jailbreak'', data_kw = d,
      evaluators_kw = [(''sexual'', e1), (''self_harm'', e2), (''hate_unfairness'', e3),
                       (''violence'', e4)],
      azure_ai_project_kw = Some p, output_path_kw = ''./adversarial_test_w_jailbreak.json''\<rparr>"
  defines "W \<equiv> \<lambda>e. Print (warning_sign @ '' An error occurred during jailbreak evaluation: '' @
      exn_str e @ [CHR 0x0A] @ ''Retrying without reporting results in Azure AI Project.'')"
  defines "X \<equiv> \<lambda>e. Print (cross_mark @ '' Retried jailbreak evaluation failed: '' @ exn_str e)"
  defines "Sm \<equiv> Print (''Check '' @ pre @
      '' Adversarial Tests results in the '' @ [CHR 0x27] @ ''Evaluation'' @ [CHR 0x27] @
      '' section of your project: '' @ workspace_name cfg @ ''.'')"
  shows "(\<exists>e. tr = trace st @ [S (Inl e), F e])
       \<or> (\<exists>out e. to_eval_qa_json_lines ext out = Inl e \<and> tr = trace st @ [S (Inr out), F e])
       \<or> (\<exists>out d x. to_eval_qa_json_lines ext out = Inr d \<and>
             tr = trace st @ [S (Inr out), R d, EvaluateCall (A d) (heap st) (Inr x), Sm])
       \<or> (\<exists>out d e x. to_eval_qa_json_lines ext out = Inr d \<and>
             tr = trace st @ [S (Inr out), R d, EvaluateCall (A d) (heap st) (Inl e), W e,
                    EvaluateCall ((A d)\<lparr>azure_ai_project_kw := None\<rparr>) (heap st) (Inr x), Sm])
       \<or> (\<exists>out d e e'. to_eval_qa_json_lines ext out = Inr d \<and>
             tr = trace st @ [S (Inr out), R d, EvaluateCall (A d) (heap st) (Inl e), W e,
                    EvaluateCall ((A d)\<lparr>azure_ai_project_kw := None\<rparr>) (heap st) (Inl e'), X e'])"
  unfolding tr_def S_def F_def R_def A_def W_def X_def Sm_def
  by (auto simp: main_jailbreak_simulation_def main_jailbreak_evaluation_def call_simulator_def
      call_evaluate_def print_def Let_def split: prod.splits sum.splits)


lemma baseline_phase_shape:
  fixes ext :: "('w, 'o, 'r) externals" and cfg p e1 e2 e3 e4 sc sim st
  defines "run \<equiv> main_baseline_simulation ext cfg p e1 e2 e3 e4 sc sim st"
  defines "pre \<equiv> take 14 (getenv (environ st) ''PREFIX'' (strftime_yymmddHHMMSS (now ext)))"
  defines "h' \<equiv> (heap st)[p := AList.update ''credential'' (PyStr []) (heap st ! p)]"
  defines "S \<equiv> SimulatorCall sim
      \<lparr>scenario_kw = sc, target_kw = Callback, max_conversation_turns_kw = Some 1,
       max_simulation_results_kw = Some 10, jailbreak_kw = Some False\<rparr> (heap st)"
  defines "F \<equiv> \<lambda>e. Print (cross_mark @
      '' Failed to run adversarial simulation (non-jailbreak): '' @ exn_str e)"
  defines "R \<equiv> \<lambda>d. Print (''Adversarial conversation results: '' @ d @ ''.'')"
  defines "A \<equiv> \<lambda>d. \<lparr>evaluation_name_kw = pre @ '' Adversarial Tests'', data_kw = d,
      evaluators_kw = [(''sexual'', e1), (''self_harm'', e2), (''hate_unfairness'', e3),
                       (''violence'', e4)],
      azure_ai_project_kw = Some p, output_path_kw = ''./adversarial_test.json''\<rparr>"
  defines "W \<equiv> \<lambda>e. Print (warning_sign @ '' An error occurred during evaluation: '' @
      exn_str e @ [CHR 0x0A] @ ''Retrying without reporting results in Azure AI Project.'')"
  defines "X \<equiv> \<lambda>e. Print (cross_mark @ '' Retried evaluation failed: '' @ exn_str e)"
  defines "next_phase \<equiv> main_jailbreak_simulation ext cfg p e1 e2 e3 e4 sc sim pre"
  shows "(\<exists>e. trace run = trace st @ [S (Inl e), F e])
       \<or> (\<exists>out e. to_eval_qa_json_lines ext out = Inl e \<and>
             trace run = trace st @ [S (Inr out), F e])
       \<or> (\<exists>out d e e'. to_eval_qa_json_lines ext out = Inr d \<and>
             trace run = trace st @ [S (Inr out), R d, EvaluateCall (A d) h' (Inl e), W e,
                    EvaluateCall ((A d)\<lparr>azure_ai_project_kw := None\<rparr>) h' (Inl e'), X e'])
       \<or> (\<exists>out d x st'. to_eval_qa_json_lines ext out = Inr d \<and>
             run = next_phase st' \<and> heap st' = h' \<and>
             trace st' = trace st @ [S (Inr out), R d, EvaluateCall (A d) h' (Inr x)])
       \<or> (\<exists>out d e x st'. to_eval_qa_json_lines ext out = Inr d \<and>
             run = next_phase st' \<and> heap st' = h' \<and>
             trace st' = trace st @ [S (Inr out), R d, EvaluateCall (A d) h' (Inl e), W e,
                      EvaluateCall ((A d)\<lparr>azure_ai_project_kw := None\<rparr>) h' (Inr x)])"
proof -
  note defs = run_def pre_def h'_def S_def F_def R_def A_def W_def X_def next_phase_def
    main_baseline_simulation_def main_baseline_evaluation_def call_simulator_def
    call_evaluate_def print_def dict_set_def Let_def
  obtain r1 w1 where c1: "simulator_call ext sim
      \<lparr>scenario_kw = sc, target_kw = Callback, max_conversation_turns_kw = Some 1,
       max_simulation_results_kw = Some 10, jailbreak_kw = Some False\<rparr> (heap st) (world st)
      = (r1, w1)"
    by (rule prod.exhaust)
  show ?thesis
  proof (cases r1)
    case (Inl e)
    with c1 have "trace run = trace st @ [S (Inl e), F e]"
      by (simp add: defs)
    then show ?thesis by blast
  next
    case out: (Inr out)
    show ?thesis
    proof (cases "to_eval_qa_json_lines ext out")
      case (Inl e)
      with c1 out have "trace run = trace st @ [S (Inr out), F e]"
        by (simp add: defs)
      with Inl show ?thesis by blast
    next
      case d: (Inr d)
      obtain r2 w2 where c2: "evaluate ext (A d) h' w1 = (r2, w2)"
        by (rule prod.exhaust)
      show ?thesis
      proof (cases r2)
        case (Inr x)
        define st' where "st' = st\<lparr>heap := h', world := w2,
            trace := trace st @ [S (Inr out), R d, EvaluateCall (A d) h' (Inr x)]\<rparr>"
        from c1 out d c2 Inr have "run = next_phase st'"
          by (simp add: defs st'_def)
        moreover have "heap st' = h'"
          and "trace st' = trace st @ [S (Inr out), R d, EvaluateCall (A d) h' (Inr x)]"
          by (simp_all add: st'_def)
        ultimately show ?thesis using d by blast
      next
        case e: (Inl e)
        obtain r3 w3 where c3:
          "evaluate ext ((A d)\<lparr>azure_ai_project_kw := None\<rparr>) h' w2 = (r3, w3)"
          by (rule prod.exhaust)
        show ?thesis
        proof (cases r3)
          case (Inr x)
          define st' where "st' = st\<lparr>heap := h', world := w3,
              trace := trace st @ [S (Inr out), R d, EvaluateCall (A d) h' (Inl e), W e,
                EvaluateCall ((A d)\<lparr>azure_ai_project_kw := None\<rparr>) h' (Inr x)]\<rparr>"
          from c1 out d c2 e c3 Inr have "run = next_phase st'"
            by (simp add: defs st'_def)
          moreover have "heap st' = h'"
            and "trace st' = trace st @ [S (Inr out), R d, EvaluateCall (A d) h' (Inl e), W e,
                EvaluateCall ((A d)\<lparr>azure_ai_project_kw := None\<rparr>) h' (Inr x)]"
            by (simp_all add: st'_def)
          ultimately show ?thesis using d by blast
        next
          case (Inl e')
          with c1 out d c2 e c3 have "trace run = trace st @ [S (Inr out), R d,
              EvaluateCall (A d) h' (Inl e), W e,
              EvaluateCall ((A d)\<lparr>azure_ai_project_kw := None\<rparr>) h' (Inl e'), X e']"
            by (simp add: defs)
          with d show ?thesis by blast
        qed
      qed
    qed
  qed
qed


lemma main_trace_shape:
  fixes ext :: "('w, 'o, 'r) externals" and cfg env w
  defines "tr \<equiv> trace (main ext cfg env w)"
  defines "valid \<equiv> location cfg \<in> {''eastus2'', ''francecentral'', ''uksouth'', ''swedencentral''}"
  defines "P0 \<equiv> [Print (''AZURE_LOCATION= '' @ location cfg),
      Print (''AZURE_SUBSCRIPTION_ID= '' @ subscription_id cfg),
      Print (''AZURE_RESOURCE_GROUP= '' @ resource_group cfg),
      Print (''AZUREAI_PROJECT_NAME= '' @ workspace_name cfg)]"
  defines "project \<equiv> \<lambda>c. [ [(''subscription_id'', PyStr (subscription_id cfg)),
      (''resource_group_name'', PyStr (resource_group cfg)),
      (''project_name'', PyStr (workspace_name cfg)), (''credential'', c)]]"
  defines "pre \<equiv> take 14 (getenv env ''PREFIX'' (strftime_yymmddHHMMSS (now ext)))"
  defines "S \<equiv> \<lambda>jb. SimulatorCall (AdversarialSimulator 0)
      \<lparr>scenario_kw = ADVERSARIAL_QA, target_kw = Callback,
       max_conversation_turns_kw = (if jb then None else Some 1),
       max_simulation_results_kw = Some 10, jailbreak_kw = Some jb\<rparr>
      (project (if jb then PyStr [] else DefaultAzureCredential))"
  defines "F \<equiv> \<lambda>jb e. Print (cross_mark @ '' Failed to run adversarial simulation ('' @
      (if jb then ''jailbreak'' else ''non-jailbreak'') @ ''): '' @ exn_str e)"
  defines "R \<equiv> \<lambda>jb d. Print (''Adversarial conversation '' @ (if jb then ''w/ jailbreak '' else [])
      @ ''results: '' @ d @ ''.'')"
  defines "A \<equiv> \<lambda>jb d. \<lparr>evaluation_name_kw = pre @ '' Adversarial Tests'' @
        (if jb then '' w/ Jailbreak'' else []), data_kw = d,
      evaluators_kw = [(''sexual'', SexualEvaluator 0), (''self_harm'', SelfHarmEvaluator 0),
        (''hate_unfairness'', HateUnfairnessEvaluator 0), (''violence'', ViolenceEvaluator 0)],
      azure_ai_project_kw = Some 0,
      output_path_kw = ''./adversarial_test'' @ (if jb then ''_w_jailbreak'' else []) @ ''.json''\<rparr>"
  defines "E \<equiv> \<lambda>jb d. EvaluateCall (A jb d) (project (PyStr []))"
  defines "E' \<equiv> \<lambda>jb d. EvaluateCall ((A jb d)\<lparr>azure_ai_project_kw := None\<rparr>) (project (PyStr []))"
  defines "W \<equiv> \<lambda>jb e. Print (warning_sign @ '' An error occurred during '' @
      (if jb then ''jailbreak '' else []) @ ''evaluation: '' @
      exn_str e @ [CHR 0x0A] @ ''Retrying without reporting results in Azure AI Project.'')"
  defines "X \<equiv> \<lambda>jb e. Print (cross_mark @ '' Retried '' @ (if jb then ''jailbreak '' else []) @
      ''evaluation failed: '' @ exn_str e)"
  defines "Sm \<equiv> Print (''Check '' @ pre @
      '' Adversarial Tests results in the '' @ [CHR 0x27] @ ''Evaluation'' @ [CHR 0x27] @
      '' section of your project: '' @ workspace_name cfg @ ''.'')"
  defines "JB \<equiv> \<lambda>T. (\<exists>e. T = [S True (Inl e), F True e])
       \<or> (\<exists>out e. to_eval_qa_json_lines ext out = Inl e \<and> T = [S True (Inr out), F True e])
       \<or> (\<exists>out d x. to_eval_qa_json_lines ext out = Inr d \<and>
             T = [S True (Inr out), R True d, E True d (Inr x), Sm])
       \<or> (\<exists>out d e x. to_eval_qa_json_lines ext out = Inr d \<and>
             T = [S True (Inr out), R True d, E True d (Inl e), W True e, E' True d (Inr x), Sm])
       \<or> (\<exists>out d e e'. to_eval_qa_json_lines ext out = Inr d \<and>
             T = [S True (Inr out), R True d, E True d (Inl e), W True e, E' True d (Inl e'),
                  X True e'])"
  shows "(\<not> valid \<and> tr = P0 @ [Print (''Invalid AZURE_LOCATION: '' @ location cfg @
             ''. Must be one of '' @ repr_str_list
               [''eastus2'', ''francecentral'', ''uksouth'', ''swedencentral''] @ ''.'')])
       \<or> (valid \<and> (\<exists>e. tr = P0 @ [S False (Inl e), F False e]))
       \<or> (valid \<and> (\<exists>out e. to_eval_qa_json_lines ext out = Inl e \<and>
             tr = P0 @ [S False (Inr out), F False e]))
       \<or> (valid \<and> (\<exists>out d e e'. to_eval_qa_json_lines ext out = Inr d \<and>
             tr = P0 @ [S False (Inr out), R False d, E False d (Inl e), W False e,
                        E' False d (Inl e'), X False e']))
       \<or> (valid \<and> (\<exists>out d x T. to_eval_qa_json_lines ext out = Inr d \<and> JB T \<and>
             tr = P0 @ [S False (Inr out), R False d, E False d (Inr x)] @ T))
       \<or> (valid \<and> (\<exists>out d e x T. to_eval_qa_json_lines ext out = Inr d \<and> JB T \<and>
             tr = P0 @ [S False (Inr out), R False d, E False d (Inl e), W False e,
                        E' False d (Inr x)] @ T))"
proof (cases valid)
  case False
  then have "tr = P0 @ [Print (''Invalid AZURE_LOCATION: '' @ location cfg @
      ''. Must be one of '' @ repr_str_list
        [''eastus2'', ''francecentral'', ''uksouth'', ''swedencentral''] @ ''.'')]"
    by (simp add: tr_def valid_def P0_def main_def print_def setenv_def Let_def)
  with False show ?thesis by blast
next
  case True
  define st0 :: "('w, 'o, 'r) state" where "st0 = \<lparr>world = w, heap = project DefaultAzureCredential,
     environ = env(''AZURE_OPENAI_ENDPOINT'' \<mapsto> aoai_endpoint cfg,
                   ''AZURE_OPENAI_API_KEY'' \<mapsto> aoai_api_key cfg), trace = P0\<rparr>"
  have st0: "trace st0 = P0" "heap st0 = project DefaultAzureCredential"
    "take 14 (getenv (environ st0) ''PREFIX'' (strftime_yymmddHHMMSS (now ext))) = pre"
    by (simp_all add: st0_def pre_def getenv_def)
  have h2: "(project DefaultAzureCredential)[0 := AList.update ''credential'' (PyStr [])
      (project DefaultAzureCredential ! 0)] = project (PyStr [])"
    by (simp add: project_def)
  from True have m: "main ext cfg env w = main_baseline_simulation ext cfg 0 (SexualEvaluator 0)
      (SelfHarmEvaluator 0) (HateUnfairnessEvaluator 0) (ViolenceEvaluator 0) ADVERSARIAL_QA
      (AdversarialSimulator 0) st0"
    by (auto simp add: valid_def main_def st0_def P0_def project_def print_def setenv_def
        new_dict_def dict_set_def Let_def)
  note b = baseline_phase_shape [of ext cfg 0 "SexualEvaluator 0" "SelfHarmEvaluator 0"
      "HateUnfairnessEvaluator 0" "ViolenceEvaluator 0" ADVERSARIAL_QA "AdversarialSimulator 0" st0,
      folded m, unfolded st0 h2, folded tr_def]
  note j = jailbreak_phase_shape [of ext cfg 0 "SexualEvaluator 0" "SelfHarmEvaluator 0"
      "HateUnfairnessEvaluator 0" "ViolenceEvaluator 0" ADVERSARIAL_QA "AdversarialSimulator 0" pre]
  have jb: "\<exists>T. trace (main_jailbreak_simulation ext cfg 0 (SexualEvaluator 0)
      (SelfHarmEvaluator 0) (HateUnfairnessEvaluator 0) (ViolenceEvaluator 0) ADVERSARIAL_QA
      (AdversarialSimulator 0) pre st') = trace st' @ T \<and> JB T"
    if "heap st' = project (PyStr [])" for st'
    using j [of st'] that
    by (auto simp add: JB_def S_def F_def R_def E_def E'_def A_def W_def X_def Sm_def)
  from b consider
      (sim_raised) e where "tr = P0 @ [S False (Inl e), F False e]"
    | (conv_raised) out e where "to_eval_qa_json_lines ext out = Inl e"
        "tr = P0 @ [S False (Inr out), F False e]"
    | (fatal) out d e e' where "to_eval_qa_json_lines ext out = Inr d"
        "tr = P0 @ [S False (Inr out), R False d, E False d (Inl e), W False e,
                    E' False d (Inl e'), X False e']"
    | (first_ok) out d x st' where "to_eval_qa_json_lines ext out = Inr d"
        "heap st' = project (PyStr [])"
        "tr = trace (main_jailbreak_simulation ext cfg 0 (SexualEvaluator 0)
          (SelfHarmEvaluator 0) (HateUnfairnessEvaluator 0) (ViolenceEvaluator 0) ADVERSARIAL_QA
          (AdversarialSimulator 0) pre st')"
        "trace st' = P0 @ [S False (Inr out), R False d, E False d (Inr x)]"
    | (fallback_ok) out d e x st' where "to_eval_qa_json_lines ext out = Inr d"
        "heap st' = project (PyStr [])"
        "tr = trace (main_jailbreak_simulation ext cfg 0 (SexualEvaluator 0)
          (SelfHarmEvaluator 0) (HateUnfairnessEvaluator 0) (ViolenceEvaluator 0) ADVERSARIAL_QA
          (AdversarialSimulator 0) pre st')"
        "trace st' = P0 @ [S False (Inr out), R False d, E False d (Inl e), W False e,
                    E' False d (Inr x)]"
    unfolding S_def F_def R_def E_def E'_def A_def W_def X_def tr_def
    by (elim disjE exE conjE) simp_all
  then show ?thesis
  proof cases
    case sim_raised
    with True show ?thesis by blast
  next
    case conv_raised
    with True show ?thesis by blast
  next
    case fatal
    with True show ?thesis by blast
  next
    case first_ok
    from jb [OF first_ok(2)] first_ok(3,4) obtain T where "JB T"
      "tr = P0 @ [S False (Inr out), R False d, E False d (Inr x)] @ T"
      by auto
    with True first_ok(1) show ?thesis by blast
  next
    case fallback_ok
    from jb [OF fallback_ok(2)] fallback_ok(3,4) obtain T where "JB T"
      "tr = P0 @ [S False (Inr out), R False d, E False d (Inl e), W False e,
                  E' False d (Inr x)] @ T"
      by auto
    with True fallback_ok(1) show ?thesis by blast
  qed
qed

subsection \<open>The responder adapter\<close>

text \<open>
  A three-message envelope (user, assistant, user): the adapter sends the first
  message's content to the chat function, while the most recent user message is the
  third.
\<close>

theorem C4_counterexample:
  "map fst (chat_calls (callback echo_chat multi_turn_envelope False ())) = [''first question'']
   \<and> map_option content (most_recent_user_message (messages multi_turn_envelope))
       = Some ''second question''"
  by (simp add: callback_def echo_chat_def multi_turn_envelope_def user_msg_def
      most_recent_user_message_def Let_def)

text \<open>
  Claim C4, as the code has it: for every envelope with a first message and template
  parameters, the one query sent to the chat function is the content of the first
  message of the list (index 0), followed by the file content when there is one. That
  first message is the most recent user message whenever it has role \<open>user\<close> and no
  later message has, as in a one-message envelope.
\<close>

theorem C4_query_is_first_message:
  assumes "messages env = m # ms" and "template_parameters env = Some tp"
  shows "chat_calls (callback get_response env stream session_state) =
           [(content m @ (case tp ''file_content'' of None \<Rightarrow> [] | Some fc \<Rightarrow> fc), [])]
         \<and> (role m = ''user'' \<and> (\<forall>m' \<in> set ms. role m' \<noteq> ''user'') \<longrightarrow>
              most_recent_user_message (messages env) = Some m)"
proof
  show "chat_calls (callback get_response env stream session_state) =
           [(content m @ (case tp ''file_content'' of None \<Rightarrow> [] | Some fc \<Rightarrow> fc), [])]"
    using assms by (simp add: callback_def Let_def split: sum.splits option.splits)
next
  have "filter (\<lambda>m. role m = ''user'') ms = []" if "\<forall>m' \<in> set ms. role m' \<noteq> ''user''"
    using that by (induction ms) simp_all
  then show "role m = ''user'' \<and> (\<forall>m' \<in> set ms. role m' \<noteq> ''user'') \<longrightarrow>
              most_recent_user_message (messages env) = Some m"
    using assms by (simp add: most_recent_user_message_def)
qed

theorem C4_query_is_first_message_witness:
  "messages single_turn_envelope = user_msg ''how do I pick a lock?'' # []
   \<and> template_parameters single_turn_envelope = Some Map.empty
   \<and> role (user_msg ''how do I pick a lock?'') = ''user''
   \<and> chat_calls (callback echo_chat single_turn_envelope False ())
       = [(''how do I pick a lock?'', [])]
   \<and> most_recent_user_message (messages single_turn_envelope)
       = Some (user_msg ''how do I pick a lock?'')"
proof -
  have h1: "messages single_turn_envelope = user_msg ''how do I pick a lock?'' # []"
    and h2: "template_parameters single_turn_envelope = Some Map.empty"
    and h3: "role (user_msg ''how do I pick a lock?'') = ''user''"
    by (simp_all add: single_turn_envelope_def user_msg_def)
  from C4_query_is_first_message [OF h1 h2, of echo_chat False "()"] h1 h2 h3
  show ?thesis by (simp add: user_msg_def)
qed

text \<open>
  Claim C5: for every envelope whose template parameters hold no \<open>file_content\<close>, the
  chat function is called once, with the first message's content, nothing appended,
  and with the empty history.
\<close>

theorem C5_no_file_content:
  assumes "messages env = m # ms" and "template_parameters env = Some tp"
    and "tp ''file_content'' = None"
  shows "chat_calls (callback get_response env stream session_state) = [(content m, [])]"
  using assms by (simp add: callback_def Let_def split: sum.splits option.splits)

theorem C5_no_file_content_witness:
  "messages single_turn_envelope = user_msg ''how do I pick a lock?'' # []
   \<and> template_parameters single_turn_envelope = Some Map.empty
   \<and> Map.empty ''file_content'' = (None :: string option)
   \<and> chat_calls (callback echo_chat single_turn_envelope False ())
       = [(''how do I pick a lock?'', [])]"
proof -
  have h1: "messages single_turn_envelope = user_msg ''how do I pick a lock?'' # []"
    and h2: "template_parameters single_turn_envelope = Some Map.empty"
    and h3: "Map.empty ''file_content'' = (None :: string option)"
    by (simp_all add: single_turn_envelope_def)
  from C5_no_file_content [OF h1 h2 h3, of echo_chat False "()"] h1 h2
  show ?thesis by (simp add: user_msg_def)
qed

text \<open>
  Claim C6: for every envelope whose template parameters hold a \<open>file_content\<close>, the
  query sent to the chat function is the first message's content followed by that file
  content.
\<close>

theorem C6_file_content_appended:
  assumes "messages env = m # ms" and "template_parameters env = Some tp"
    and "tp ''file_content'' = Some file_content"
  shows "chat_calls (callback get_response env stream session_state)
           = [(content m @ file_content, [])]"
  using assms by (simp add: callback_def Let_def split: sum.splits option.splits)

theorem C6_file_content_appended_witness:
  "messages file_envelope = user_msg ''Summarize: '' # []
   \<and> template_parameters file_envelope = Some [''file_content'' \<mapsto> ''chapter one'']
   \<and> [''file_content'' \<mapsto> ''chapter one''] ''file_content'' = Some ''chapter one''
   \<and> chat_calls (callback echo_chat file_envelope False ())
       = [(''Summarize: chapter one'', [])]"
proof -
  have h1: "messages file_envelope = user_msg ''Summarize: '' # []"
    and h2: "template_parameters file_envelope = Some [''file_content'' \<mapsto> ''chapter one'']"
    and h3: "[''file_content'' \<mapsto> ''chapter one''] ''file_content'' = Some ''chapter one''"
    by (simp_all add: file_envelope_def)
  from C6_file_content_appended [OF h1 h2 h3, of echo_chat False "()"] h1 h2
  show ?thesis by (simp add: user_msg_def)
qed

text \<open>
  An invocation that raises (no first message, no template parameters, a chat function
  that raises, an answer dict without \<open>answer\<close>) leaves the envelope as it was.
\<close>

lemma callback_raise_leaves_envelope:
  "outcome (callback get_response env stream session_state) = Inl e \<Longrightarrow>
   envelope_after (callback get_response env stream session_state) = env"
  by (auto simp add: callback_def Let_def split: list.splits sum.splits option.splits)

text \<open>
  An invocation whose chat function raises: the exception leaves the adapter and the
  message list is as it was, with no assistant message appended.
\<close>

theorem C7_counterexample:
  "chat_calls (callback failing_chat single_turn_envelope False ())
     = [(''how do I pick a lock?'', [])]
   \<and> outcome (callback failing_chat single_turn_envelope False ()) = Inl service_error
   \<and> messages (envelope_after (callback failing_chat single_turn_envelope False ()))
     = [user_msg ''how do I pick a lock?'']"
  by (simp add: callback_def failing_chat_def single_turn_envelope_def user_msg_def Let_def)

text \<open>
  Claim C7, as the code has it: on every invocation on an envelope with a first message
  and template parameters whose chat call returns a dict holding an answer, exactly one
  message is appended to the list, with role \<open>assistant\<close>, that answer as content and an
  empty context; the messages already there stay as they were and in their order, in
  the returned list and in the caller's envelope; \<open>stream\<close> and \<open>session_state\<close> are
  returned as passed.
\<close>

theorem C7_one_assistant_message_appended:
  assumes "messages env = m # ms" and "template_parameters env = Some tp"
    and "get_response (content m @ (case tp ''file_content'' of None \<Rightarrow> [] | Some fc \<Rightarrow> fc)) []
           = Inr answer_dict"
    and "answer_dict ''answer'' = Some answer"
  defines "appended \<equiv> messages env @
      [\<lparr>content = answer, role = ''assistant'', context_dict = Some []\<rparr>]"
  shows "outcome (callback get_response env stream session_state) =
           Inr \<lparr>result_messages = appended, result_stream = stream,
                result_session_state = session_state\<rparr>
         \<and> envelope_after (callback get_response env stream session_state) =
           env\<lparr>messages := appended\<rparr>"
  using assms(1-4) unfolding appended_def
  by (cases "tp ''file_content''") (simp_all add: callback_def Let_def)

theorem C7_one_assistant_message_appended_witness:
  "messages single_turn_envelope = user_msg ''how do I pick a lock?'' # []
   \<and> template_parameters single_turn_envelope = Some Map.empty
   \<and> echo_chat ''how do I pick a lock?'' [] = Inr [''answer'' \<mapsto> ''re: how do I pick a lock?'']
   \<and> [''answer'' \<mapsto> ''re: how do I pick a lock?''] ''answer'' = Some ''re: how do I pick a lock?''
   \<and> outcome (callback echo_chat single_turn_envelope True (7::nat)) =
       Inr \<lparr>result_messages =
              [user_msg ''how do I pick a lock?'',
               \<lparr>content = ''re: how do I pick a lock?'', role = ''assistant'',
                context_dict = Some []\<rparr>],
            result_stream = True, result_session_state = 7\<rparr>"
proof -
  have h1: "messages single_turn_envelope = user_msg ''how do I pick a lock?'' # []"
    and h2: "template_parameters single_turn_envelope = Some Map.empty"
    by (simp_all add: single_turn_envelope_def)
  have h3: "echo_chat (content (user_msg ''how do I pick a lock?'') @
        (case Map.empty ''file_content'' of None \<Rightarrow> [] | Some fc \<Rightarrow> fc)) []
      = Inr [''answer'' \<mapsto> ''re: how do I pick a lock?'']"
    by (simp add: echo_chat_def user_msg_def)
  have h4: "[''answer'' \<mapsto> ''re: how do I pick a lock?''] ''answer''
      = Some ''re: how do I pick a lock?''"
    by simp
  from C7_one_assistant_message_appended [where get_response = echo_chat
      and env = single_turn_envelope and m = "user_msg ''how do I pick a lock?''" and ms = "[]"
      and tp = Map.empty and answer_dict = "[''answer'' \<mapsto> ''re: how do I pick a lock?'']"
      and answer = "''re: how do I pick a lock?''" and stream = True
      and session_state = "7::nat", OF h1 h2 h3 h4] h1 h2 h3
  show ?thesis by (simp add: user_msg_def)
qed

subsection \<open>The driver\<close>

lemmas run_defs = main_def main_baseline_simulation_def main_baseline_evaluation_def
  main_jailbreak_simulation_def main_jailbreak_evaluation_def call_simulator_def
  call_evaluate_def print_def setenv_def new_dict_def dict_set_def getenv_def
  scripted_def scripted_call_def uksouth_config_def invalidzone_config_def Let_def

lemma strftime_length: "length (strftime_yymmddHHMMSS t) = 12"
  by (simp add: strftime_yymmddHHMMSS_def two_digits_def)

text \<open>
  Claim C2: with a configured location outside the four allowed ones, \<open>main\<close> prints the
  four configuration lines and the invalid-location line and returns: the trace holds
  no simulator call and no \<open>evaluate\<close> call, and the world outside is as it was. With
  a location among the four, the run goes on to a simulator call.
\<close>

theorem C2_location_guard:
  fixes ext :: "('w, 'o, 'r) externals" and cfg env w
  defines "run \<equiv> main ext cfg env w"
  shows "(location cfg \<notin> {''eastus2'', ''francecentral'', ''uksouth'', ''swedencentral''} \<longrightarrow>
            network_calls (trace run) = [] \<and> world run = w \<and> length (trace run) = 5 \<and>
            last (trace run) = Print (''Invalid AZURE_LOCATION: '' @ location cfg @
              ''. Must be one of ['eastus2', 'francecentral', 'uksouth', 'swedencentral'].''))
       \<and> (location cfg \<in> {''eastus2'', ''francecentral'', ''uksouth'', ''swedencentral''} \<longrightarrow>
            simulator_calls (trace run) \<noteq> [])"
proof (intro conjI impI)
  assume "location cfg \<notin> {''eastus2'', ''francecentral'', ''uksouth'', ''swedencentral''}"
  then have "run = \<lparr>world = w, heap = [],
      environ = env(''AZURE_OPENAI_ENDPOINT'' \<mapsto> aoai_endpoint cfg,
                    ''AZURE_OPENAI_API_KEY'' \<mapsto> aoai_api_key cfg),
      trace = [Print (''AZURE_LOCATION= '' @ location cfg),
        Print (''AZURE_SUBSCRIPTION_ID= '' @ subscription_id cfg),
        Print (''AZURE_RESOURCE_GROUP= '' @ resource_group cfg),
        Print (''AZUREAI_PROJECT_NAME= '' @ workspace_name cfg),
        Print (''Invalid AZURE_LOCATION: '' @ location cfg @
              ''. Must be one of ['eastus2', 'francecentral', 'uksouth', 'swedencentral'].'')]\<rparr>"
    by (simp add: run_def main_def print_def setenv_def repr_str_list_def Let_def)
  then show "network_calls (trace run) = []" "world run = w" "length (trace run) = 5"
    "last (trace run) = Print (''Invalid AZURE_LOCATION: '' @ location cfg @
              ''. Must be one of ['eastus2', 'francecentral', 'uksouth', 'swedencentral'].'')"
    by (simp_all add: network_calls_def)
next
  assume "location cfg \<in> {''eastus2'', ''francecentral'', ''uksouth'', ''swedencentral''}"
  with main_trace_shape [where ext = ext and cfg = cfg and env = env and w = w]
  show "simulator_calls (trace run) \<noteq> []"
    unfolding run_def by (elim disjE exE conjE) simp_all
qed

theorem C2_location_guard_witness:
  "location invalidzone_config \<notin> {''eastus2'', ''francecentral'', ''uksouth'', ''swedencentral''}
   \<and> network_calls (trace (main scripted invalidzone_config Map.empty [True])) = []
   \<and> world (main scripted invalidzone_config Map.empty [True]) = [True]
   \<and> location uksouth_config \<in> {''eastus2'', ''francecentral'', ''uksouth'', ''swedencentral''}
   \<and> simulator_calls (trace (main scripted uksouth_config Map.empty [True])) \<noteq> []"
  using C2_location_guard [where ext = scripted and cfg = invalidzone_config
      and env = Map.empty and w = "[True]"]
    C2_location_guard [where ext = scripted and cfg = uksouth_config
      and env = Map.empty and w = "[True]"]
  by (simp add: invalidzone_config_def uksouth_config_def)

text \<open>
  Claim C8: the simulator is called at most twice. The first call, made whenever the
  location is allowed, passes the scenario ADVERSARIAL_QA, the adapter as target, a turn
  cap of 1, a session cap of 10 and jailbreak off; the second passes the same scenario,
  target and session cap with jailbreak on, and no turn cap.
\<close>

theorem C8_simulator_arguments:
  fixes ext :: "('w, 'o, 'r) externals" and cfg env w
  defines "baseline \<equiv> \<lparr>scenario_kw = ADVERSARIAL_QA, target_kw = Callback,
      max_conversation_turns_kw = Some 1, max_simulation_results_kw = Some 10,
      jailbreak_kw = Some False\<rparr>"
  defines "jailbreak \<equiv> \<lparr>scenario_kw = ADVERSARIAL_QA, target_kw = Callback,
      max_conversation_turns_kw = None, max_simulation_results_kw = Some 10,
      jailbreak_kw = Some True\<rparr>"
  defines "passes \<equiv> map fst (simulator_calls (trace (main ext cfg env w)))"
  shows "passes \<in> {[], [baseline], [baseline, jailbreak]}
         \<and> (location cfg \<in> {''eastus2'', ''francecentral'', ''uksouth'', ''swedencentral''}
              \<longrightarrow> take 1 passes = [baseline])"
  unfolding baseline_def jailbreak_def passes_def
  using main_trace_shape [where ext = ext and cfg = cfg and env = env and w = w]
  by (elim disjE exE conjE) simp_all

theorem C8_simulator_arguments_witness:
  "location uksouth_config \<in> {''eastus2'', ''francecentral'', ''uksouth'', ''swedencentral''}
   \<and> map fst (simulator_calls (trace (main scripted uksouth_config Map.empty []))) =
       [\<lparr>scenario_kw = ADVERSARIAL_QA, target_kw = Callback,
         max_conversation_turns_kw = Some 1, max_simulation_results_kw = Some 10,
         jailbreak_kw = Some False\<rparr>,
        \<lparr>scenario_kw = ADVERSARIAL_QA, target_kw = Callback,
         max_conversation_turns_kw = None, max_simulation_results_kw = Some 10,
         jailbreak_kw = Some True\<rparr>]"
  using C8_simulator_arguments [where ext = scripted and cfg = uksouth_config
      and env = Map.empty and w = "[]"]
  by (simp add: run_defs)

text \<open>
  Claim C9: the run prefix is the first 14 characters of the value of \<open>PREFIX\<close> when the
  environment has it, and of the timestamp yymmddHHMMSS otherwise (12 characters, so
  whole). Every \<open>evaluate\<close> call that writes the baseline file is named
  "prefix Adversarial Tests", every one that writes the jailbreak file
  "prefix Adversarial Tests w/ Jailbreak", with that same prefix, and there is no other.
\<close>

theorem C9_run_prefix:
  fixes ext :: "('w, 'o, 'r) externals" and cfg env w
  defines "prefix \<equiv> take 14 (case env ''PREFIX'' of Some v \<Rightarrow> v
                               | None \<Rightarrow> strftime_yymmddHHMMSS (now ext))"
  shows "length prefix \<le> 14
       \<and> (env ''PREFIX'' = None \<longrightarrow> prefix = strftime_yymmddHHMMSS (now ext))
       \<and> (\<forall>c \<in> set (evaluate_calls (trace (main ext cfg env w))).
            (output_path_kw (fst c) = ''./adversarial_test.json'' \<and>
             evaluation_name_kw (fst c) = prefix @ '' Adversarial Tests'')
          \<or> (output_path_kw (fst c) = ''./adversarial_test_w_jailbreak.json'' \<and>
             evaluation_name_kw (fst c) = prefix @ '' Adversarial Tests w/ Jailbreak''))"
proof (intro conjI)
  show "length prefix \<le> 14" by (simp add: prefix_def)
  show "env ''PREFIX'' = None \<longrightarrow> prefix = strftime_yymmddHHMMSS (now ext)"
    by (simp add: prefix_def strftime_length)
  have p: "take 14 (getenv env ''PREFIX'' (strftime_yymmddHHMMSS (now ext))) = prefix"
    by (simp add: prefix_def getenv_def)
  from main_trace_shape [where ext = ext and cfg = cfg and env = env and w = w, unfolded p]
  show "\<forall>c \<in> set (evaluate_calls (trace (main ext cfg env w))).
            (output_path_kw (fst c) = ''./adversarial_test.json'' \<and>
             evaluation_name_kw (fst c) = prefix @ '' Adversarial Tests'')
          \<or> (output_path_kw (fst c) = ''./adversarial_test_w_jailbreak.json'' \<and>
             evaluation_name_kw (fst c) = prefix @ '' Adversarial Tests w/ Jailbreak'')"
    by (elim disjE exE conjE) simp_all
qed

theorem C9_run_prefix_witness:
  "(Map.empty :: string \<rightharpoonup> string) ''PREFIX'' = None
   \<and> map (evaluation_name_kw \<circ> fst)
        (evaluate_calls (trace (main scripted uksouth_config Map.empty []))) =
       [''240517090341 Adversarial Tests'', ''240517090341 Adversarial Tests w/ Jailbreak'']
   \<and> map (evaluation_name_kw \<circ> fst)
        (evaluate_calls (trace (main scripted uksouth_config
           [''PREFIX'' \<mapsto> ''nightly-run-2024-05''] []))) =
       [''nightly-run-20 Adversarial Tests'', ''nightly-run-20 Adversarial Tests w/ Jailbreak'']"
  using C9_run_prefix [where ext = scripted and cfg = uksouth_config
      and env = Map.empty and w = "[]"]
    C9_run_prefix [where ext = scripted and cfg = uksouth_config
      and env = "[''PREFIX'' \<mapsto> ''nightly-run-2024-05'']" and w = "[]"]
  by (simp add: run_defs strftime_yymmddHHMMSS_def two_digits_def)

text \<open>
  Claim C3: when a simulation pass raises (the simulator call itself, or the conversion
  of its output on the next line, inside the same \<open>try\<close>), the one event that follows
  the call is the failure line, which names the pass ("non-jailbreak" or "jailbreak"),
  and the run is over: no library call follows. After a failed baseline pass the trace
  holds no \<open>evaluate\<close> call at all; after a failed jailbreak pass it holds only the
  baseline submissions, which were made before it.
\<close>

theorem C3_simulation_failure:
  fixes ext :: "('w, 'o, 'r) externals" and cfg env w sim a h r e
  defines "tr \<equiv> trace (main ext cfg env w)"
  assumes "SimulatorCall sim a h r \<in> set tr"
    and "r = Inl e \<or> (\<exists>out. r = Inr out \<and> to_eval_qa_json_lines ext out = Inl e)"
  shows "following (SimulatorCall sim a h r) tr =
           [Print (cross_mark @ '' Failed to run adversarial simulation ('' @
              (if jailbreak_kw a = Some True then ''jailbreak'' else ''non-jailbreak'') @
              ''): '' @ exn_str e)]
       \<and> network_calls (following (SimulatorCall sim a h r) tr) = []
       \<and> (jailbreak_kw a = Some False \<longrightarrow> evaluate_calls tr = [])
       \<and> (jailbreak_kw a = Some True \<longrightarrow> evaluate_calls tr \<noteq> [] \<and>
            (\<forall>c \<in> set (evaluate_calls tr). output_path_kw (fst c) = ''./adversarial_test.json''))"
proof -
  define valid where
    "valid \<longleftrightarrow> location cfg \<in> {''eastus2'', ''francecentral'', ''uksouth'', ''swedencentral''}"
  define failed where "failed jb x = cross_mark @ '' Failed to run adversarial simulation ('' @
      (if jb then ''jailbreak'' else ''non-jailbreak'') @ ''): '' @ exn_str x" for jb x
  define results where "results jb d = ''Adversarial conversation '' @
      (if jb then ''w/ jailbreak '' else []) @ ''results: '' @ d @ ''.''" for jb d
  define warned where "warned jb x = warning_sign @ '' An error occurred during '' @
      (if jb then ''jailbreak '' else []) @ ''evaluation: '' @
      exn_str x @ [CHR 0x0A] @ ''Retrying without reporting results in Azure AI Project.''"
    for jb x
  define retried where "retried jb x = cross_mark @ '' Retried '' @
      (if jb then ''jailbreak '' else []) @ ''evaluation failed: '' @ exn_str x" for jb x
  define project where "project c = [ [(''subscription_id'', PyStr (subscription_id cfg)),
      (''resource_group_name'', PyStr (resource_group cfg)),
      (''project_name'', PyStr (workspace_name cfg)), (''credential'', c)]]" for c
  define holds where "holds t sim a h r e \<longleftrightarrow>
         following (SimulatorCall sim a h r) t = [Print (failed (jailbreak_kw a = Some True) e)]
       \<and> network_calls (following (SimulatorCall sim a h r) t) = []
       \<and> (jailbreak_kw a = Some False \<longrightarrow> evaluate_calls t = [])
       \<and> (jailbreak_kw a = Some True \<longrightarrow> evaluate_calls t \<noteq> [] \<and>
            (\<forall>c \<in> set (evaluate_calls t). output_path_kw (fst c) = ''./adversarial_test.json''))"
    for t :: "('o, 'r) event list" and sim a h r e
  have "holds (trace (main ext cfg env w)) sim a h r e"
    using assms(2,3) unfolding tr_def
    using main_trace_shape [where ext = ext and cfg = cfg and env = env and w = w,
        folded valid_def failed_def results_def warned_def retried_def project_def]
    apply -
    apply (elim disjE exE conjE; simp; (elim disjE conjE)?;
        simp add: holds_def following_def network_calls_def)
    done
  then show ?thesis
    unfolding holds_def failed_def tr_def .
qed

theorem C3_simulation_failure_witness:
  "SimulatorCall (AdversarialSimulator 0) jailbreak_pass (example_store (PyStr []))
       (Inl service_error)
     \<in> set (trace (main scripted uksouth_config Map.empty [True, True, False]))
   \<and> following (SimulatorCall (AdversarialSimulator 0) jailbreak_pass
          (example_store (PyStr [])) (Inl service_error))
        (trace (main scripted uksouth_config Map.empty [True, True, False]))
     = [Print (cross_mark @
          '' Failed to run adversarial simulation (jailbreak): service unavailable'')]
   \<and> map (output_path_kw \<circ> fst)
        (evaluate_calls (trace (main scripted uksouth_config Map.empty [True, True, False])))
     = [''./adversarial_test.json'']
   \<and> SimulatorCall (AdversarialSimulator 0)
        (jailbreak_pass\<lparr>max_conversation_turns_kw := Some 1, jailbreak_kw := Some False\<rparr>)
        (example_store DefaultAzureCredential) (Inl service_error)
     \<in> set (trace (main scripted uksouth_config Map.empty [False]))
   \<and> last (trace (main scripted uksouth_config Map.empty [False]))
     = Print (cross_mark @
          '' Failed to run adversarial simulation (non-jailbreak): service unavailable'')
   \<and> evaluate_calls (trace (main scripted uksouth_config Map.empty [False])) = []"
  using C3_simulation_failure [where ext = scripted and cfg = uksouth_config
      and env = Map.empty and w = "[True, True, False]" and sim = "AdversarialSimulator 0"
      and a = jailbreak_pass and h = "example_store (PyStr [])"
      and r = "Inl service_error" and e = service_error]
    C3_simulation_failure [where ext = scripted and cfg = uksouth_config
      and env = Map.empty and w = "[False]" and sim = "AdversarialSimulator 0"
      and a = "jailbreak_pass\<lparr>max_conversation_turns_kw := Some 1, jailbreak_kw := Some False\<rparr>"
      and h = "example_store DefaultAzureCredential"
      and r = "Inl service_error" and e = service_error]
  by (simp add: run_defs jailbreak_pass_def example_store_def service_error_def following_def)



end
